theory Spec2Isabelle
  imports Complex_Main "HOL-Library.Sublist"
begin

section \<open>JavaScript numbers\<close>

text \<open>
  Prices, fees and percentages are values of the JavaScript type Number: IEEE 754
  binary64 with round to nearest, ties to even. A value is a finite number (the
  rational it denotes, \<open>Finite 0\<close> being the positive zero), the negative zero, one of
  the two infinities, or NaN. Every finite double is a \<open>Finite q\<close>; the operations
  below return doubles only.
\<close>

datatype Number = Finite rat | NegZero | PosInfinity | NegInfinity | NaN

text \<open>The number of binary digits of a positive integer.\<close>

function bitLength :: "int \<Rightarrow> int" where
  "bitLength n = (if n \<le> 0 then 0 else 1 + bitLength (n div 2))"
  by auto

termination
  by (relation "measure nat") auto

declare bitLength.simps [simp del]

text \<open>The binary exponent of a positive rational: \<open>2 powi expo2 a \<le> a < 2 powi (expo2 a + 1)\<close>.\<close>

definition expo2 :: "rat \<Rightarrow> int" where
  "expo2 a =
     (if 1 \<le> a then bitLength \<lfloor>a\<rfloor> - 1
      else - bitLength (\<lceil>1 / a\<rceil> - 1))"

definition roundHalfEven :: "rat \<Rightarrow> int" where
  "roundHalfEven r =
     (let f = \<lfloor>r\<rfloor>; d = r - of_int f
      in if d < 1 / 2 then f
         else if 1 / 2 < d then f + 1
         else if even f then f else f + 1)"

text \<open>
  Rounding of an exact result to binary64: 53 significant bits, exponents from -1022
  (below that the spacing stays \<open>2 powi (- 1074)\<close>, the subnormal range) to 1023 (above
  that the result is an infinity). A result that rounds to zero keeps its sign.
\<close>

definition fl :: "rat \<Rightarrow> Number" where
  "fl q =
     (if q = 0 then Finite 0
      else
        (let a = \<bar>q\<bar>;
             e = max (expo2 a) (- 1022);
             n = roundHalfEven (a / 2 powi (e - 52))
         in if 1023 < e \<or> (e = 1023 \<and> n = 2 ^ 53)
            then (if q < 0 then NegInfinity else PosInfinity)
            else if n = 0 then (if q < 0 then NegZero else Finite 0)
            else Finite (sgn q * of_int n * 2 powi (e - 52))))"

text \<open>The Number that a decimal literal (in the source or in the configuration file)
  with exact value \<open>q\<close> denotes.\<close>

definition num :: "rat \<Rightarrow> Number" where
  "num q = fl q"

fun isNegative :: "Number \<Rightarrow> bool" where
  "isNegative (Finite q) = (q < 0)"
| "isNegative NegZero = True"
| "isNegative NegInfinity = True"
| "isNegative PosInfinity = False"
| "isNegative NaN = False"

fun isZero :: "Number \<Rightarrow> bool" where
  "isZero (Finite q) = (q = 0)"
| "isZero NegZero = True"
| "isZero x = False"

fun isInfinite :: "Number \<Rightarrow> bool" where
  "isInfinite PosInfinity = True"
| "isInfinite NegInfinity = True"
| "isInfinite x = False"

fun valueOf :: "Number \<Rightarrow> rat" where
  "valueOf (Finite q) = q"
| "valueOf x = 0"

definition signedZero :: "bool \<Rightarrow> Number" where
  "signedZero neg = (if neg then NegZero else Finite 0)"

definition signedInfinity :: "bool \<Rightarrow> Number" where
  "signedInfinity neg = (if neg then NegInfinity else PosInfinity)"

fun jsNeg :: "Number \<Rightarrow> Number" where
  "jsNeg (Finite q) = (if q = 0 then NegZero else Finite (- q))"
| "jsNeg NegZero = Finite 0"
| "jsNeg PosInfinity = NegInfinity"
| "jsNeg NegInfinity = PosInfinity"
| "jsNeg NaN = NaN"

text \<open>The operators \<^verbatim>\<open>+\<close>, \<^verbatim>\<open>-\<close>, \<^verbatim>\<open>*\<close> and \<^verbatim>\<open>/\<close> on Numbers.\<close>

definition jsAdd :: "Number \<Rightarrow> Number \<Rightarrow> Number" where
  "jsAdd x y =
     (if x = NaN \<or> y = NaN then NaN
      else if isInfinite x then (if isInfinite y \<and> x \<noteq> y then NaN else x)
      else if isInfinite y then y
      else if valueOf x + valueOf y = 0
      then (if x = NegZero \<and> y = NegZero then NegZero else Finite 0)
      else fl (valueOf x + valueOf y))"

definition jsSub :: "Number \<Rightarrow> Number \<Rightarrow> Number" where
  "jsSub x y = jsAdd x (jsNeg y)"

definition jsMul :: "Number \<Rightarrow> Number \<Rightarrow> Number" where
  "jsMul x y =
     (if x = NaN \<or> y = NaN then NaN
      else if (isInfinite x \<and> isZero y) \<or> (isZero x \<and> isInfinite y) then NaN
      else if isInfinite x \<or> isInfinite y
      then signedInfinity (isNegative x \<noteq> isNegative y)
      else if valueOf x * valueOf y = 0
      then signedZero (isNegative x \<noteq> isNegative y)
      else fl (valueOf x * valueOf y))"

definition jsDiv :: "Number \<Rightarrow> Number \<Rightarrow> Number" where
  "jsDiv x y =
     (if x = NaN \<or> y = NaN then NaN
      else if (isInfinite x \<and> isInfinite y) \<or> (isZero x \<and> isZero y) then NaN
      else if isInfinite x \<or> isZero y
      then signedInfinity (isNegative x \<noteq> isNegative y)
      else if isInfinite y \<or> isZero x
      then signedZero (isNegative x \<noteq> isNegative y)
      else fl (valueOf x / valueOf y))"

text \<open>
  The comparisons \<^verbatim>\<open><\<close>, \<^verbatim>\<open>>\<close> and \<^verbatim>\<open>>=\<close>: false as soon as one side is NaN; the two zeros
  are equal.
\<close>

fun rank :: "Number \<Rightarrow> int" where
  "rank NegInfinity = - 1"
| "rank PosInfinity = 1"
| "rank x = 0"

definition jsLt :: "Number \<Rightarrow> Number \<Rightarrow> bool" where
  "jsLt x y =
     (x \<noteq> NaN \<and> y \<noteq> NaN
      \<and> (rank x < rank y \<or> (rank x = rank y \<and> valueOf x < valueOf y)))"

definition jsGt :: "Number \<Rightarrow> Number \<Rightarrow> bool" where
  "jsGt x y = jsLt y x"

definition jsGe :: "Number \<Rightarrow> Number \<Rightarrow> bool" where
  "jsGe x y = (x \<noteq> NaN \<and> y \<noteq> NaN \<and> \<not> jsLt x y)"





section \<open>Data model (src/src/types/exchange.ts, src/src/types/config.ts)\<close>

text \<open>
  Millisecond timestamps are \<open>int\<close>. Strings are \<open>string\<close>. Where two interfaces of the
  source share a field name, the later record carries a short prefix (\<open>opp_symbol\<close>,
  \<open>pair_symbol\<close>, \<open>pos_exchange\<close>, \<open>dt_exchange\<close>, \<open>dt_reason\<close>, \<open>opp_timestamp\<close>).
  \<open>Position\<close>, \<open>PositionPair\<close> and the configuration records list the fields that the
  modelled functions read.
\<close>

datatype ExchangeName = binance | mexc

record TickerPrice =
  symbol :: string
  price :: Number
  bid :: Number
  ask :: Number
  timestamp :: int
  exchange :: ExchangeName

record ArbitrageOpportunity =
  opp_symbol :: string
  buyExchange :: ExchangeName
  sellExchange :: ExchangeName
  buyPrice :: Number
  sellPrice :: Number
  spreadPercent :: Number
  profitPercent :: Number
  opp_timestamp :: int

record Position =
  pos_exchange :: ExchangeName
  entryPrice :: Number

record PositionPair =
  pair_symbol :: string
  longPosition :: Position
  shortPosition :: Position

datatype SkipReason =
    INSUFFICIENT_BALANCE
  | POSITION_NOT_PROFITABLE
  | NO_FREE_SLOTS
  | SYMBOL_ALREADY_OPEN
  | PROFIT_BELOW_THRESHOLD
  | SPREAD_CLOSED
  | LIQUIDITY_LOW

record ArbitrageConfig =
  minSpreadPercent :: Number

record NotificationConfig =
  minSpreadToNotify :: Number

record FeeConfig =
  maker :: Number
  taker :: Number

record SlippageConfig =
  percent :: Number

record TradingConfig =
  enabled :: bool
  minProfitToClosePercent :: Number
  closeOnNewOpportunity :: bool

text \<open>
  \<^verbatim>\<open>Config.fees\<close> is an object with one \<^verbatim>\<open>FeeConfig\<close> per venue; the two entries are the
  fields \<open>binanceFees\<close> and \<open>mexcFees\<close>, and \<open>fees cfg ex\<close> is the lookup
  \<^verbatim>\<open>config.fees[ex]\<close>.
\<close>

record Config =
  arbitrage :: ArbitrageConfig
  notifications :: NotificationConfig
  binanceFees :: FeeConfig
  mexcFees :: FeeConfig
  slippage :: SlippageConfig
  trading :: TradingConfig

fun fees :: "Config \<Rightarrow> ExchangeName \<Rightarrow> FeeConfig" where
  "fees cfg binance = binanceFees cfg"
| "fees cfg mexc = mexcFees cfg"


section \<open>Symbol normaliser (src/src/exchanges/mexc-futures.ts)\<close>

text \<open>
  JavaScript's \<^verbatim>\<open>String.prototype.replace\<close> with a string pattern replaces the first
  occurrence of the pattern only, and leaves the string as it is when the pattern does
  not occur. An empty pattern matches at position 0. Neither replacement string used
  by the source contains a dollar sign, so no replacement pattern is expanded.
\<close>

fun replaceFirst :: "string \<Rightarrow> string \<Rightarrow> string \<Rightarrow> string" where
  "replaceFirst pat rep [] = (if pat = [] then rep else [])"
| "replaceFirst pat rep (c # cs) =
     (if prefix pat (c # cs) then rep @ drop (length pat) (c # cs)
      else c # replaceFirst pat rep cs)"

text \<open>\<^verbatim>\<open>String.prototype.includes\<close>: the pattern occurs somewhere in the string.\<close>

fun includesStr :: "string \<Rightarrow> string \<Rightarrow> bool" where
  "includesStr pat [] = (pat = [])"
| "includesStr pat (c # cs) = (prefix pat (c # cs) \<or> includesStr pat cs)"

text \<open>\<^verbatim>\<open>static toCommonFormat(mexcSymbol)\<close>: \<^verbatim>\<open>mexcSymbol.replace('_', '')\<close>.\<close>

definition toCommonFormat :: "string \<Rightarrow> string" where
  "toCommonFormat mexcSymbol = replaceFirst ''_'' '''' mexcSymbol"

text \<open>\<^verbatim>\<open>static toMexcFormat(binanceSymbol)\<close>: \<^verbatim>\<open>binanceSymbol.replace('USDT', '_USDT')\<close>.\<close>

definition toMexcFormat :: "string \<Rightarrow> string" where
  "toMexcFormat binanceSymbol = replaceFirst ''USDT'' ''_USDT'' binanceSymbol"


section \<open>Connection health monitor (src/src/utils/websocket-monitor.ts)\<close>

text \<open>
  \<^verbatim>\<open>currentDowntime\<close> is a \<^verbatim>\<open>Map\<close> keyed by the venue name; \<^verbatim>\<open>downtimes\<close> is the archive,
  in the order of the \<^verbatim>\<open>push\<close> calls. \<^verbatim>\<open>Date.now()\<close> is the explicit argument \<open>now\<close>.
\<close>

record WebSocketDowntime =
  dt_exchange :: ExchangeName
  disconnectTime :: int
  reconnectTime :: "int option"
  durationMs :: "int option"
  dt_reason :: string

record WebSocketMonitor =
  downtimes :: "WebSocketDowntime list"
  currentDowntime :: "ExchangeName \<rightharpoonup> WebSocketDowntime"

definition newMonitor :: WebSocketMonitor where
  "newMonitor = \<lparr>downtimes = [], currentDowntime = Map.empty\<rparr>"

definition recordDisconnect ::
  "ExchangeName \<Rightarrow> string \<Rightarrow> int \<Rightarrow> WebSocketMonitor \<Rightarrow> WebSocketMonitor" where
  "recordDisconnect ex rsn now m =
     (let downtime = \<lparr>dt_exchange = ex, disconnectTime = now, reconnectTime = None,
                       durationMs = None, dt_reason = rsn\<rparr>
      in m\<lparr>currentDowntime := (currentDowntime m)(ex \<mapsto> downtime)\<rparr>)"

definition recordReconnect :: "ExchangeName \<Rightarrow> int \<Rightarrow> WebSocketMonitor \<Rightarrow> WebSocketMonitor" where
  "recordReconnect ex now m =
     (case currentDowntime m ex of
        None \<Rightarrow> m
      | Some downtime \<Rightarrow>
          m\<lparr>downtimes := downtimes m @
                 [downtime\<lparr>reconnectTime := Some now,
                           durationMs := Some (now - disconnectTime downtime)\<rparr>],
            currentDowntime := (currentDowntime m)(ex := None)\<rparr>)"

definition getDowntimes :: "WebSocketMonitor \<Rightarrow> WebSocketDowntime list" where
  "getDowntimes m = downtimes m"

text \<open>
  A sequence of calls on one monitor: each event is one call with the clock value it
  reads.
\<close>

datatype MonitorEvent = Disconnect ExchangeName string int | Reconnect ExchangeName int

fun applyEvent :: "WebSocketMonitor \<Rightarrow> MonitorEvent \<Rightarrow> WebSocketMonitor" where
  "applyEvent m (Disconnect ex rsn now) = recordDisconnect ex rsn now m"
| "applyEvent m (Reconnect ex now) = recordReconnect ex now m"

definition runEvents :: "MonitorEvent list \<Rightarrow> WebSocketMonitor \<Rightarrow> WebSocketMonitor" where
  "runEvents evs m = foldl applyEvent m evs"

fun eventExchange :: "MonitorEvent \<Rightarrow> ExchangeName" where
  "eventExchange (Disconnect ex rsn now) = ex"
| "eventExchange (Reconnect ex now) = ex"

fun isDisconnect :: "MonitorEvent \<Rightarrow> bool" where
  "isDisconnect (Disconnect ex rsn now) = True"
| "isDisconnect (Reconnect ex now) = False"

fun isDisconnectOn :: "ExchangeName \<Rightarrow> MonitorEvent \<Rightarrow> bool" where
  "isDisconnectOn ex (Disconnect ex' rsn now) = (ex' = ex)"
| "isDisconnectOn ex (Reconnect ex' now) = False"

text \<open>The number of \<^verbatim>\<open>recordDisconnect\<close> calls for a venue in a sequence.\<close>

definition disconnectCount :: "ExchangeName \<Rightarrow> MonitorEvent list \<Rightarrow> nat" where
  "disconnectCount ex evs = length (filter (isDisconnectOn ex) evs)"

text \<open>
  The calls of one venue, in order, as flags (\<open>True\<close> for a disconnect, \<open>False\<close> for a
  reconnect), and the number of disconnects in such a list that are directly followed
  by a reconnect.
\<close>

definition venueCalls :: "ExchangeName \<Rightarrow> MonitorEvent list \<Rightarrow> bool list" where
  "venueCalls ex evs = map isDisconnect (filter (\<lambda>e. eventExchange e = ex) evs)"

fun closedPairs :: "bool list \<Rightarrow> nat" where
  "closedPairs (True # False # ks) = Suc (closedPairs ks)"
| "closedPairs (k # ks) = closedPairs ks"
| "closedPairs [] = 0"

definition archivedFor :: "ExchangeName \<Rightarrow> WebSocketMonitor \<Rightarrow> WebSocketDowntime list" where
  "archivedFor ex m = filter (\<lambda>d. dt_exchange d = ex) (getDowntimes m)"

text \<open>Invariants used in the proofs: open records sit under their own venue's key, and
  an archived record carries its reconnect time and the matching duration.\<close>

definition keyed :: "WebSocketMonitor \<Rightarrow> bool" where
  "keyed m = (\<forall>ex d. currentDowntime m ex = Some d \<longrightarrow> dt_exchange d = ex)"

definition closedEntry :: "WebSocketDowntime \<Rightarrow> bool" where
  "closedEntry d = (case reconnectTime d of
      None \<Rightarrow> False | Some r \<Rightarrow> durationMs d = Some (r - disconnectTime d))"

definition pendingCalls :: "WebSocketMonitor \<Rightarrow> ExchangeName \<Rightarrow> bool list" where
  "pendingCalls m ex = (if currentDowntime m ex \<noteq> None then [True] else [])"


section \<open>Opportunity detector and slot decision (src/src/arbitrage-detector.ts)\<close>

text \<open>
  The trade executor (\<^verbatim>\<open>TradeExecutor\<close>) is a collaborator of the detector. What the
  detector reads from it during one tick, the entries of \<^verbatim>\<open>getOpenPositions()\<close> in map
  order and the answer of \<^verbatim>\<open>canOpenNewPosition()\<close>, is a parameter; what the detector
  asks of it is returned as the list of calls, in order. Logger calls are left out.
\<close>

datatype ExecutorCall =
    OpenPositionPair ArbitrageOpportunity
  | ClosePositionManually string Number Number
  | RecordSkippedOpportunity ArbitrageOpportunity SkipReason
      "Number option" "Number option" "Number option"
  | UpdatePositionSpread string Number Number

record TradeExecutorView =
  openPositions :: "(string \<times> PositionPair) list"
  canOpenNewPosition :: bool

text \<open>
  The detector's own state: its configuration, the price caches of the two feed clients
  (what \<^verbatim>\<open>this.binance.getPrice\<close> and \<^verbatim>\<open>this.mexc.getPrice\<close> answer) and its two counters.
\<close>

record ArbitrageDetector =
  config :: Config
  binancePrices :: "string \<rightharpoonup> TickerPrice"
  mexcPrices :: "string \<rightharpoonup> TickerPrice"
  opportunitiesFound :: nat
  totalComparisons :: nat

text \<open>\<^verbatim>\<open>getCurrentPrices(symbol)\<close>; the result object is the pair (buyPrice, sellPrice).\<close>

definition getCurrentPrices :: "ArbitrageDetector \<Rightarrow> string \<Rightarrow> (Number \<times> Number) option" where
  "getCurrentPrices d symb =
     (case binancePrices d symb of
        None \<Rightarrow> None
      | Some binancePrice \<Rightarrow>
          (case mexcPrices d (toMexcFormat symb) of
             None \<Rightarrow> None
           | Some mexcPrice \<Rightarrow>
               if jsLt (ask binancePrice) (bid mexcPrice)
               then Some (ask binancePrice, bid mexcPrice)
               else Some (ask mexcPrice, bid binancePrice)))"

text \<open>
  The current profit \<^verbatim>\<open>avgPnl\<close> of an open pairing, as the loop of
  \<^verbatim>\<open>handleNewOpportunity\<close> computes it from the pairing and its current prices.
\<close>

definition currentPairProfit :: "Config \<Rightarrow> PositionPair \<Rightarrow> Number \<times> Number \<Rightarrow> Number" where
  "currentPairProfit cfg pair currentPositionPrices =
     (let longExchange = pos_exchange (longPosition pair);
          shortExchange = pos_exchange (shortPosition pair);
          longFee = jsDiv (taker (fees cfg longExchange)) (Finite 100);
          shortFee = jsDiv (taker (fees cfg shortExchange)) (Finite 100);
          slip = jsDiv (percent (slippage cfg)) (Finite 100);
          longEntryPrice =
            jsMul (entryPrice (longPosition pair)) (jsAdd (jsAdd (Finite 1) longFee) slip);
          longExitPrice =
            jsMul (fst currentPositionPrices) (jsSub (jsSub (Finite 1) longFee) slip);
          longPnlPercent =
            jsMul (jsDiv (jsSub longExitPrice longEntryPrice) longEntryPrice) (Finite 100);
          shortEntryPrice =
            jsMul (entryPrice (shortPosition pair)) (jsSub (jsSub (Finite 1) shortFee) slip);
          shortExitPrice =
            jsMul (snd currentPositionPrices) (jsAdd (jsAdd (Finite 1) shortFee) slip);
          shortPnlPercent =
            jsMul (jsDiv (jsSub shortEntryPrice shortExitPrice) shortEntryPrice) (Finite 100)
      in jsDiv (jsAdd longPnlPercent shortPnlPercent) (Finite 2))"

text \<open>
  The loop over the open pairings in \<^verbatim>\<open>handleNewOpportunity\<close>. \<open>Some calls\<close>: the loop
  returned from the function after these calls; \<open>None\<close>: the loop ran to its end.
\<close>

fun evaluateOpenPositions ::
  "ArbitrageDetector \<Rightarrow> ArbitrageOpportunity \<Rightarrow> (string \<times> PositionPair) list
     \<Rightarrow> ExecutorCall list option" where
  "evaluateOpenPositions d opportunity [] = None"
| "evaluateOpenPositions d opportunity ((pairId, pair) # rest) =
     (case getCurrentPrices d (pair_symbol pair) of
        None \<Rightarrow> evaluateOpenPositions d opportunity rest
      | Some currentPositionPrices \<Rightarrow>
          (let avgPnl = currentPairProfit (config d) pair currentPositionPrices in
           if jsGe avgPnl (minSpreadToNotify (notifications (config d))) then
             if jsGt (profitPercent opportunity) avgPnl then
               Some [ClosePositionManually pairId (fst currentPositionPrices)
                       (snd currentPositionPrices),
                     OpenPositionPair opportunity]
             else evaluateOpenPositions d opportunity rest
           else
             Some [RecordSkippedOpportunity opportunity POSITION_NOT_PROFITABLE
                     None None (Some avgPnl)]))"

definition handleNewOpportunity ::
  "ArbitrageDetector \<Rightarrow> TradeExecutorView \<Rightarrow> ArbitrageOpportunity \<Rightarrow> ExecutorCall list" where
  "handleNewOpportunity d executor opportunity =
     (if list_ex (\<lambda>(pairId, pair). pair_symbol pair = opp_symbol opportunity)
           (openPositions executor)
      then []
      else if canOpenNewPosition executor then [OpenPositionPair opportunity]
      else
        (case (if closeOnNewOpportunity (trading (config d))
               then evaluateOpenPositions d opportunity (openPositions executor)
               else None) of
           Some calls \<Rightarrow> calls
         | None \<Rightarrow> [RecordSkippedOpportunity opportunity NO_FREE_SLOTS None None None]))"

text \<open>
  The part of \<^verbatim>\<open>checkArbitrage\<close> from the choice of direction to the construction of the
  opportunity object: \<open>None\<close> where the source returns early. \<open>now\<close> is \<^verbatim>\<open>Date.now()\<close>.
\<close>

definition buildOpportunity ::
  "Config \<Rightarrow> TickerPrice \<Rightarrow> TickerPrice \<Rightarrow> string \<Rightarrow> int \<Rightarrow> ArbitrageOpportunity option" where
  "buildOpportunity cfg price1 price2 symb now =
     (case (if jsLt (ask price1) (bid price2)
            then Some (exchange price1, exchange price2, ask price1, bid price2)
            else if jsLt (ask price2) (bid price1)
            then Some (exchange price2, exchange price1, ask price2, bid price1)
            else None) of
        None \<Rightarrow> None
      | Some (buyEx, sellEx, buyP, sellP) \<Rightarrow>
          (let spread = jsMul (jsDiv (jsSub sellP buyP) buyP) (Finite 100) in
           if jsLt spread (minSpreadPercent (arbitrage cfg)) then None
           else
             (let buyFee = jsDiv (taker (fees cfg buyEx)) (Finite 100);
                  sellFee = jsDiv (taker (fees cfg sellEx)) (Finite 100);
                  slip = jsDiv (percent (slippage cfg)) (Finite 100);
                  buyPriceWithFeeAndSlippage =
                    jsMul buyP (jsAdd (jsAdd (Finite 1) buyFee) slip);
                  sellPriceWithFeeAndSlippage =
                    jsMul sellP (jsSub (jsSub (Finite 1) sellFee) slip);
                  profit =
                    jsMul (jsDiv (jsSub sellPriceWithFeeAndSlippage buyPriceWithFeeAndSlippage)
                             buyPriceWithFeeAndSlippage) (Finite 100)
              in Some \<lparr>opp_symbol = symb, buyExchange = buyEx, sellExchange = sellEx,
                       buyPrice = buyP, sellPrice = sellP, spreadPercent = spread,
                       profitPercent = profit, opp_timestamp = now\<rparr>)))"

definition checkArbitrage ::
  "ArbitrageDetector \<Rightarrow> TradeExecutorView \<Rightarrow> TickerPrice \<Rightarrow> TickerPrice \<Rightarrow> string \<Rightarrow> int
     \<Rightarrow> ArbitrageDetector \<times> ExecutorCall list" where
  "checkArbitrage d executor price1 price2 symb now =
     (let d1 = d\<lparr>totalComparisons := totalComparisons d + 1\<rparr> in
      case buildOpportunity (config d) price1 price2 symb now of
        None \<Rightarrow> (d1, [])
      | Some opportunity \<Rightarrow>
          (let d2 = d1\<lparr>opportunitiesFound := opportunitiesFound d1 + 1\<rparr> in
           (d2,
            (if enabled (trading (config d2))
             then handleNewOpportunity d2 executor opportunity else [])
            @ [UpdatePositionSpread symb (buyPrice opportunity) (sellPrice opportunity)])))"

definition onPriceUpdate ::
  "ArbitrageDetector \<Rightarrow> TradeExecutorView \<Rightarrow> TickerPrice \<Rightarrow> int
     \<Rightarrow> ArbitrageDetector \<times> ExecutorCall list" where
  "onPriceUpdate d executor tick now =
     (let normalizedSymbol = toCommonFormat (symbol tick);
          otherPrice = (if exchange tick = binance
                        then mexcPrices d (toMexcFormat normalizedSymbol)
                        else binancePrices d normalizedSymbol)
      in case otherPrice of
           None \<Rightarrow> (d, [])
         | Some other \<Rightarrow> checkArbitrage d executor tick other normalizedSymbol now)"


section \<open>Example data\<close>

text \<open>
  A configuration with taker fees of 0.08 percent on both venues, slippage of 0.1
  percent and all three thresholds at 0.3 percent; the same with fees and slippage of
  \<open>1e-18\<close> percent; price caches for three instruments, and open pairings. They are used
  where a statement is evaluated on concrete values.
\<close>

definition exampleConfig :: Config where
  "exampleConfig =
     \<lparr>arbitrage = \<lparr>minSpreadPercent = num (3 / 10)\<rparr>,
      notifications = \<lparr>minSpreadToNotify = num (3 / 10)\<rparr>,
      binanceFees = \<lparr>maker = num (2 / 100), taker = num (8 / 100)\<rparr>,
      mexcFees = \<lparr>maker = num (2 / 100), taker = num (8 / 100)\<rparr>,
      slippage = \<lparr>percent = num (1 / 10)\<rparr>,
      trading = \<lparr>enabled = True, minProfitToClosePercent = num (3 / 10),
                 closeOnNewOpportunity = True\<rparr>\<rparr>"


definition binanceTick :: "string \<Rightarrow> rat \<Rightarrow> rat \<Rightarrow> TickerPrice" where
  "binanceTick symb b a =
     \<lparr>symbol = symb, price = Finite a, bid = Finite b, ask = Finite a, timestamp = 0,
      exchange = binance\<rparr>"

definition mexcTick :: "string \<Rightarrow> rat \<Rightarrow> rat \<Rightarrow> TickerPrice" where
  "mexcTick symb b a =
     \<lparr>symbol = symb, price = Finite b, bid = Finite b, ask = Finite a, timestamp = 0,
      exchange = mexc\<rparr>"

text \<open>Binance quotes BTCUSDT at 99.75 / 100; MEXC quotes BTC_USDT at 100.25 / 100.5
  (tight), 100.5 / 100.75 (narrow) or 102 / 102.25 (wide).\<close>

definition binanceBtc :: TickerPrice where
  "binanceBtc = binanceTick ''BTCUSDT'' (399 / 4) 100"

definition mexcBtcTight :: TickerPrice where
  "mexcBtcTight = mexcTick ''BTC_USDT'' (401 / 4) (201 / 2)"

definition mexcBtcNarrow :: TickerPrice where
  "mexcBtcNarrow = mexcTick ''BTC_USDT'' (201 / 2) (403 / 4)"

definition mexcBtcWide :: TickerPrice where
  "mexcBtcWide = mexcTick ''BTC_USDT'' 102 (409 / 4)"

text \<open>The opportunity of the narrow quote: gross spread 0.5, net profit
  0.13885006987423973.\<close>

definition narrowOpportunity :: ArbitrageOpportunity where
  "narrowOpportunity =
     \<lparr>opp_symbol = ''BTCUSDT'', buyExchange = binance, sellExchange = mexc,
      buyPrice = Finite 100, sellPrice = Finite (201 / 2), spreadPercent = Finite (1 / 2),
      profitPercent = Finite (5002600983567947 / 36028797018963968), opp_timestamp = 0\<rparr>"


text \<open>The opportunity of the wide quote: gross spread 2, net profit 1.6334597724096862.\<close>

definition exampleOpportunity :: ArbitrageOpportunity where
  "exampleOpportunity =
     \<lparr>opp_symbol = ''BTCUSDT'', buyExchange = binance, sellExchange = mexc,
      buyPrice = Finite 100, sellPrice = Finite 102, spreadPercent = Finite 2,
      profitPercent = Finite (3678224411174479 / 2251799813685248), opp_timestamp = 0\<rparr>"

definition exampleDetector :: ArbitrageDetector where
  "exampleDetector =
     \<lparr>config = exampleConfig,
      binancePrices = map_of
        [(''BTCUSDT'', binanceBtc),
         (''ETHUSDT'', binanceTick ''ETHUSDT'' (8019 / 4) 2005),
         (''SOLUSDT'', binanceTick ''SOLUSDT'' (203 / 2) (407 / 4))],
      mexcPrices = map_of
        [(''BTC_USDT'', mexcBtcWide),
         (''ETH_USDT'', mexcTick ''ETH_USDT'' 2006 (8025 / 4)),
         (''SOL_USDT'', mexcTick ''SOL_USDT'' (405 / 4) (203 / 2))],
      opportunitiesFound = 0,
      totalComparisons = 0\<rparr>"

definition examplePair :: "string \<Rightarrow> rat \<Rightarrow> rat \<Rightarrow> PositionPair" where
  "examplePair symb longEntry shortEntry =
     \<lparr>pair_symbol = symb,
      longPosition = \<lparr>pos_exchange = binance, entryPrice = Finite longEntry\<rparr>,
      shortPosition = \<lparr>pos_exchange = mexc, entryPrice = Finite shortEntry\<rparr>\<rparr>"

definition freeExecutor :: TradeExecutorView where
  "freeExecutor = \<lparr>openPositions = [], canOpenNewPosition = True\<rparr>"

definition oneSidedDetector :: ArbitrageDetector where
  "oneSidedDetector =
     \<lparr>config = exampleConfig,
      binancePrices = map_of [(''BTCUSDT'', binanceBtc)],
      mexcPrices = map_of [],
      opportunitiesFound = 0,
      totalComparisons = 0\<rparr>"

text \<open>An ETHUSDT pairing entered at 2000 / 2010, now at 2005 / 2006: current profit
  -0.13558901540292406. A SOLUSDT pairing entered at 100 / 102, now at 101.5 / 101.5:
  current profit 0.6332856681200962.\<close>

definition ethPair :: PositionPair where
  "ethPair = examplePair ''ETHUSDT'' 2000 2010"

definition solPair :: PositionPair where
  "solPair = examplePair ''SOLUSDT'' 100 102"

definition ethProfit :: Number where
  "ethProfit = Finite (- (2442554556976565 / 18014398509481984))"

definition solProfit :: Number where
  "solProfit = Finite (2852065098964741 / 4503599627370496)"

definition ethOnlyExecutor :: TradeExecutorView where
  "ethOnlyExecutor = \<lparr>openPositions = [(''pair-1'', ethPair)], canOpenNewPosition = False\<rparr>"

definition ethSolExecutor :: TradeExecutorView where
  "ethSolExecutor =
     \<lparr>openPositions = [(''pair-1'', ethPair), (''pair-2'', solPair)],
      canOpenNewPosition = False\<rparr>"

definition xrpSolExecutor :: TradeExecutorView where
  "xrpSolExecutor =
     \<lparr>openPositions = [(''pair-0'', examplePair ''XRPUSDT'' 1 1), (''pair-2'', solPair)],
      canOpenNewPosition = False\<rparr>"

definition twoOutages :: "MonitorEvent list" where
  "twoOutages =
     [Disconnect binance ''Code: 1006'' 1000, Reconnect binance 4000,
      Disconnect binance ''Code: 1001'' 9000, Reconnect binance 9500]"

definition errorThenClose :: "MonitorEvent list" where
  "errorThenClose =
     [Disconnect mexc ''Error: reset'' 1000, Disconnect mexc ''Code: 1006'' 1005,
      Reconnect mexc 4005]"


section \<open>Properties of the symbol normaliser\<close>

lemma replaceFirst_absent:
  "\<not> includesStr pat s \<Longrightarrow> replaceFirst pat rep s = s"
  by (induction s) auto

lemma includesStr_single: "includesStr [c] s = (c \<in> set s)"
  by (induction s) auto

lemma toCommonFormat_drops_separator:
  "CHR ''_'' \<notin> set base \<Longrightarrow> toCommonFormat (base @ ''_USDT'') = base @ ''USDT''"
  unfolding toCommonFormat_def by (induction base) auto

text \<open>
  The word USDT has no proper border: an occurrence that starts inside \<open>c # cs\<close> and
  runs into a following USDT would have to overlap it, which the four letters exclude.
\<close>

lemma prefix_USDT_within:
  assumes "prefix ''USDT'' (c # cs @ ''USDT'')"
  shows "prefix ''USDT'' (c # cs)"
proof (cases cs)
  case Nil
  with assms show ?thesis by simp
next
  case (Cons a as)
  note c1 = this
  show ?thesis
  proof (cases as)
    case Nil
    with assms c1 show ?thesis by simp
  next
    case (Cons b bs)
    note c2 = this
    show ?thesis
    proof (cases bs)
      case Nil
      with assms c1 c2 show ?thesis by simp
    next
      case (Cons d ds)
      with assms c1 c2 show ?thesis by simp
    qed
  qed
qed

lemma toMexcFormat_inserts_separator:
  "\<not> includesStr ''USDT'' base \<Longrightarrow> toMexcFormat (base @ ''USDT'') = base @ ''_USDT''"
proof (induction base)
  case Nil
  show ?case by (simp add: toMexcFormat_def)
next
  case (Cons c cs)
  from Cons.prems have np: "\<not> prefix ''USDT'' (c # cs)" and ni: "\<not> includesStr ''USDT'' cs"
    by simp_all
  from np have np': "\<not> prefix ''USDT'' (c # cs @ ''USDT'')"
    using prefix_USDT_within by blast
  have "toMexcFormat ((c # cs) @ ''USDT'') = replaceFirst ''USDT'' ''_USDT'' (c # cs @ ''USDT'')"
    by (simp only: toMexcFormat_def append_Cons)
  also have "\<dots> = c # replaceFirst ''USDT'' ''_USDT'' (cs @ ''USDT'')"
    using np' by (simp only: replaceFirst.simps if_False)
  also have "\<dots> = c # (cs @ ''_USDT'')"
    using Cons.IH [OF ni] by (simp only: toMexcFormat_def)
  finally show ?case by (simp only: append_Cons)
qed

lemma toCommonFormat_after_toMexcFormat:
  "CHR ''_'' \<notin> set s \<Longrightarrow> toCommonFormat (toMexcFormat s) = s"
proof (induction s)
  case Nil
  show ?case by (simp add: toCommonFormat_def toMexcFormat_def)
next
  case (Cons c cs)
  from Cons.prems have c: "c \<noteq> CHR ''_''" and cs: "CHR ''_'' \<notin> set cs" by auto
  show ?case
  proof (cases "prefix ''USDT'' (c # cs)")
    case True
    then obtain rest where r: "c # cs = ''USDT'' @ rest" by (auto simp: prefix_def)
    then have "toMexcFormat (c # cs) = ''_USDT'' @ rest"
      by (simp add: toMexcFormat_def)
    then show ?thesis using r by (simp add: toCommonFormat_def)
  next
    case False
    then have "toMexcFormat (c # cs) = c # toMexcFormat cs"
      by (simp only: toMexcFormat_def replaceFirst.simps if_False)
    moreover have "toCommonFormat (c # toMexcFormat cs) = c # toCommonFormat (toMexcFormat cs)"
      using c by (simp add: toCommonFormat_def)
    ultimately show ?thesis using Cons.IH [OF cs] by simp
  qed
qed

text \<open>
  Claim C3. The MEXC client keeps only symbols that end in \<open>_USDT\<close> (getTopPairs), so a
  tracked MEXC-native symbol is a base asset code followed by \<open>_USDT\<close>. For every such
  symbol whose base asset code contains neither an underscore nor the letters USDT,
  the canonical form is the base asset code followed by USDT, and converting to the
  canonical form and back gives the native symbol again.
\<close>

theorem toMexcFormat_toCommonFormat_roundtrip:
  assumes "CHR ''_'' \<notin> set base" and "\<not> includesStr ''USDT'' base"
  shows "toCommonFormat (base @ ''_USDT'') = base @ ''USDT''
       \<and> toMexcFormat (toCommonFormat (base @ ''_USDT'')) = base @ ''_USDT''"
  using assms by (simp add: toCommonFormat_drops_separator toMexcFormat_inserts_separator)

theorem toMexcFormat_toCommonFormat_roundtrip_witness:
  "CHR ''_'' \<notin> set ''BTC'' \<and> \<not> includesStr ''USDT'' ''BTC''
   \<and> toCommonFormat ''BTC_USDT'' = ''BTCUSDT''
   \<and> toMexcFormat (toCommonFormat ''BTC_USDT'') = ''BTC_USDT''"
  using toMexcFormat_toCommonFormat_roundtrip [of "''BTC''"] by auto


section \<open>Properties of the connection health monitor\<close>

lemma keyed_new: "keyed newMonitor" by (simp add: keyed_def newMonitor_def)

lemma keyed_apply: "keyed m \<Longrightarrow> keyed (applyEvent m e)"
  by (cases e) (auto simp: keyed_def recordDisconnect_def recordReconnect_def split: option.splits)

lemma archived_apply:
  "keyed m \<Longrightarrow> length (archivedFor ex (applyEvent m e)) =
     length (archivedFor ex m) +
     (if eventExchange e = ex \<and> \<not> isDisconnect e \<and> currentDowntime m ex \<noteq> None then 1 else 0)"
  by (cases e) (auto simp: keyed_def archivedFor_def getDowntimes_def recordDisconnect_def recordReconnect_def split: option.splits)

lemma open_apply:
  "(currentDowntime (applyEvent m e) ex \<noteq> None) =
     (if eventExchange e = ex then isDisconnect e else currentDowntime m ex \<noteq> None)"
  by (cases e) (auto simp: recordDisconnect_def recordReconnect_def split: option.splits)

lemma closedPairs_False: "closedPairs (False # ks) = closedPairs ks"
  by (cases ks) simp_all

lemma archived_run:
  "keyed m \<Longrightarrow> length (archivedFor ex (runEvents evs m)) =
     length (archivedFor ex m) + closedPairs (pendingCalls m ex @ venueCalls ex evs)"
proof (induction evs arbitrary: m)
  case Nil
  show ?case by (simp add: runEvents_def venueCalls_def pendingCalls_def)
next
  case (Cons e es)
  have k: "keyed (applyEvent m e)" using Cons.prems by (rule keyed_apply)
  have "runEvents (e # es) m = runEvents es (applyEvent m e)" by (simp add: runEvents_def)
  then have "length (archivedFor ex (runEvents (e # es) m)) =
      length (archivedFor ex (applyEvent m e)) +
      closedPairs (pendingCalls (applyEvent m e) ex @ venueCalls ex es)"
    using Cons.IH [OF k] by simp
  also have "\<dots> = length (archivedFor ex m) +
      closedPairs (pendingCalls m ex @ venueCalls ex (e # es))"
    unfolding archived_apply [OF Cons.prems] pendingCalls_def open_apply
    by (cases e) (auto simp: venueCalls_def)
  finally show ?case .
qed

lemma closedPairs_le: "closedPairs ks \<le> length (filter (\<lambda>k. k) ks)"
  by (induction ks rule: closedPairs.induct) auto

lemma disconnectCount_venueCalls: "disconnectCount ex evs = length (filter (\<lambda>k. k) (venueCalls ex evs))"
  unfolding disconnectCount_def venueCalls_def
  by (induction evs) (auto elim: isDisconnectOn.elims isDisconnect.elims)

lemma closedEntries_apply:
  "\<forall>d \<in> set (downtimes m). closedEntry d \<Longrightarrow> \<forall>d \<in> set (downtimes (applyEvent m e)). closedEntry d"
  by (cases e) (auto simp: closedEntry_def recordDisconnect_def recordReconnect_def split: option.splits)

lemma closedEntries_run:
  "\<forall>d \<in> set (downtimes m). closedEntry d \<Longrightarrow> \<forall>d \<in> set (downtimes (runEvents evs m)). closedEntry d"
proof (induction evs arbitrary: m)
  case Nil then show ?case by (simp add: runEvents_def)
next
  case (Cons e es)
  have "runEvents (e # es) m = runEvents es (applyEvent m e)" by (simp add: runEvents_def)
  then show ?case using Cons.IH [OF closedEntries_apply [OF Cons.prems]] by simp
qed

lemma closedPairs_alternating:
  "closedPairs (concat (replicate n [True, False])) = n"
  by (induction n) simp_all

lemma disconnects_alternating:
  "length (filter (\<lambda>k. k) (concat (replicate n [True, False]))) = n"
  by (induction n) simp_all

lemma errorThenClose_run:
  "runEvents errorThenClose newMonitor =
     \<lparr>downtimes = [\<lparr>dt_exchange = mexc, disconnectTime = 1005, reconnectTime = Some 4005,
                     durationMs = Some 3000, dt_reason = ''Code: 1006''\<rparr>],
      currentDowntime = Map.empty\<rparr>"
  by (simp add: errorThenClose_def runEvents_def recordDisconnect_def recordReconnect_def
        newMonitor_def)

text \<open>
  Claim C4, as stated, fails. The feed clients report a socket error and the close that
  follows it as two disconnects; after the reconnect the archive holds one entry, while
  \<^verbatim>\<open>recordDisconnect\<close> was called twice for the venue.
\<close>

theorem archive_shorter_than_disconnects:
  "length (getDowntimes (runEvents errorThenClose newMonitor)) = 1
   \<and> disconnectCount mexc errorThenClose = 2
   \<and> errorThenClose = [Disconnect mexc ''Error: reset'' 1000,
        Disconnect mexc ''Code: 1006'' 1005, Reconnect mexc 4005]"
  by (simp add: errorThenClose_run getDowntimes_def)
    (simp add: errorThenClose_def disconnectCount_def)

text \<open>
  Claim C4, amended. For any sequence of recordDisconnect and recordReconnect calls on a
  fresh monitor and any venue, the archive holds one entry of that venue for each
  disconnect of the venue that is directly followed, among the venue's calls, by a
  reconnect; so it holds at most as many entries as there were disconnects, and exactly
  as many when the venue's calls alternate disconnect, reconnect. Every archived entry
  has a reconnect time, and its duration is the reconnect time minus the disconnect
  time.
\<close>

theorem archive_counts_closed_disconnects:
  "length (archivedFor ex (runEvents evs newMonitor)) = closedPairs (venueCalls ex evs)
   \<and> length (archivedFor ex (runEvents evs newMonitor)) \<le> disconnectCount ex evs
   \<and> (venueCalls ex evs = concat (replicate n [True, False]) \<longrightarrow>
        length (archivedFor ex (runEvents evs newMonitor)) = disconnectCount ex evs)
   \<and> (\<forall>d \<in> set (getDowntimes (runEvents evs newMonitor)).
         \<exists>r. reconnectTime d = Some r \<and> durationMs d = Some (r - disconnectTime d))"
proof (intro conjI impI)
  have "length (archivedFor ex newMonitor) = 0" "pendingCalls newMonitor ex = []"
    by (simp_all add: archivedFor_def getDowntimes_def newMonitor_def pendingCalls_def)
  then show c: "length (archivedFor ex (runEvents evs newMonitor)) = closedPairs (venueCalls ex evs)"
    using archived_run [OF keyed_new, of ex evs] by simp
  show "length (archivedFor ex (runEvents evs newMonitor)) \<le> disconnectCount ex evs"
    unfolding c disconnectCount_venueCalls by (rule closedPairs_le)
  show "length (archivedFor ex (runEvents evs newMonitor)) = disconnectCount ex evs"
    if "venueCalls ex evs = concat (replicate n [True, False])"
    unfolding c disconnectCount_venueCalls that
    by (simp only: closedPairs_alternating disconnects_alternating)
  have "\<forall>d \<in> set (downtimes (runEvents evs newMonitor)). closedEntry d"
    by (rule closedEntries_run) (simp add: newMonitor_def)
  then show "\<forall>d \<in> set (getDowntimes (runEvents evs newMonitor)).
         \<exists>r. reconnectTime d = Some r \<and> durationMs d = Some (r - disconnectTime d)"
    by (auto simp: getDowntimes_def closedEntry_def split: option.splits)
qed

text \<open>
  The amended statement on the error, close, reconnect sequence: one archived entry,
  for the one disconnect that a reconnect follows, lasting 4005 - 1005 milliseconds;
  and on two outages that are each closed by a reconnect: two entries.
\<close>

theorem archive_counts_closed_disconnects_witness:
  "getDowntimes (runEvents errorThenClose newMonitor) =
     [\<lparr>dt_exchange = mexc, disconnectTime = 1005, reconnectTime = Some 4005,
       durationMs = Some 3000, dt_reason = ''Code: 1006''\<rparr>]
   \<and> length (archivedFor mexc (runEvents errorThenClose newMonitor)) = 1
   \<and> closedPairs (venueCalls mexc errorThenClose) = 1
   \<and> disconnectCount mexc errorThenClose = 2
   \<and> venueCalls binance twoOutages = concat (replicate 2 [True, False])
   \<and> length (archivedFor binance (runEvents twoOutages newMonitor)) = 2
   \<and> disconnectCount binance twoOutages = 2"
proof -
  have v: "venueCalls binance twoOutages = concat (replicate 2 [True, False])"
    by (simp add: twoOutages_def venueCalls_def numeral_2_eq_2)
  have n: "disconnectCount binance twoOutages = 2"
    by (simp add: twoOutages_def disconnectCount_def)
  have e: "disconnectCount mexc errorThenClose = 2"
    by (simp add: errorThenClose_def disconnectCount_def)
  show ?thesis
    using archive_counts_closed_disconnects [of mexc errorThenClose]
      archive_counts_closed_disconnects [of binance twoOutages 2] v n e
    by (simp add: errorThenClose_run getDowntimes_def archivedFor_def)
qed

text \<open>
  Claim C7, as stated, fails. A second recordDisconnect for a venue whose downtime
  record is still open is not ignored: the open record is replaced by a new one with
  the later disconnect time and the later reason.
\<close>

theorem second_disconnect_overwrites:
  "currentDowntime (recordDisconnect binance ''Error: reset'' 1000 newMonitor) binance =
     Some \<lparr>dt_exchange = binance, disconnectTime = 1000, reconnectTime = None,
            durationMs = None, dt_reason = ''Error: reset''\<rparr>
   \<and> currentDowntime (recordDisconnect binance ''Code: 1006'' 1005
        (recordDisconnect binance ''Error: reset'' 1000 newMonitor)) binance =
     Some \<lparr>dt_exchange = binance, disconnectTime = 1005, reconnectTime = None,
            durationMs = None, dt_reason = ''Code: 1006''\<rparr>"
  by (simp add: recordDisconnect_def newMonitor_def)

text \<open>
  Claim C7, amended. The monitor keeps at most one open downtime record per venue (the
  open records are keyed by venue). A second recordDisconnect for a venue while a record
  is open for it replaces that record by a new one with the new disconnect time and
  reason; no record is added (the set of venues with an open record is the same), the
  other venue's open record is untouched and nothing is archived.
\<close>

theorem second_disconnect_replaces_open_record:
  assumes "currentDowntime m ex = Some d0"
  shows "currentDowntime (recordDisconnect ex rsn now m) ex =
           Some \<lparr>dt_exchange = ex, disconnectTime = now, reconnectTime = None,
                  durationMs = None, dt_reason = rsn\<rparr>
       \<and> dom (currentDowntime (recordDisconnect ex rsn now m)) = dom (currentDowntime m)
       \<and> (\<forall>ex'. ex' \<noteq> ex \<longrightarrow>
             currentDowntime (recordDisconnect ex rsn now m) ex' = currentDowntime m ex')
       \<and> downtimes (recordDisconnect ex rsn now m) = downtimes m"
  using assms by (auto simp: recordDisconnect_def)

theorem second_disconnect_replaces_open_record_witness:
  "currentDowntime (recordDisconnect binance ''Error: reset'' 1000 newMonitor) binance =
     Some \<lparr>dt_exchange = binance, disconnectTime = 1000, reconnectTime = None,
            durationMs = None, dt_reason = ''Error: reset''\<rparr>
   \<and> currentDowntime (recordDisconnect binance ''Code: 1006'' 1005
        (recordDisconnect binance ''Error: reset'' 1000 newMonitor)) binance =
     Some \<lparr>dt_exchange = binance, disconnectTime = 1005, reconnectTime = None,
            durationMs = None, dt_reason = ''Code: 1006''\<rparr>
   \<and> downtimes (recordDisconnect binance ''Code: 1006'' 1005
        (recordDisconnect binance ''Error: reset'' 1000 newMonitor)) = []"
proof -
  have o: "currentDowntime (recordDisconnect binance ''Error: reset'' 1000 newMonitor) binance =
     Some \<lparr>dt_exchange = binance, disconnectTime = 1000, reconnectTime = None,
            durationMs = None, dt_reason = ''Error: reset''\<rparr>"
    by (simp add: recordDisconnect_def newMonitor_def)
  have "downtimes (recordDisconnect binance ''Error: reset'' 1000 newMonitor) = []"
    by (simp add: recordDisconnect_def newMonitor_def)
  then show ?thesis
    using o second_disconnect_replaces_open_record [OF o, of "''Code: 1006''" 1005]
    by simp
qed

section \<open>Evaluation of the example data\<close>

lemma example_literals:
  "num (3 / 10) = Finite (5404319552844595 / 18014398509481984)"
  "num (2 / 25) = Finite (5764607523034235 / 72057594037927936)"
  "num (1 / 50) = Finite (5764607523034235 / 288230376151711744)"
  "num (1 / 10) = Finite (3602879701896397 / 36028797018963968)"
  "num (1 / 1000000000000000000) = Finite (1298074214633707 / 1298074214633706907132624082305024)"
  by (simp_all only: num_def) code_simp+

lemma ops_narrow:
  "jsSub (Finite (201 / 2)) (Finite 100) = Finite (1 / 2)"
  "jsDiv (Finite (1 / 2)) (Finite 100) = Finite (5764607523034235 / 1152921504606846976)"
  "jsMul (Finite (5764607523034235 / 1152921504606846976)) (Finite 100) = Finite (1 / 2)"
  "jsDiv (Finite (5764607523034235 / 72057594037927936)) (Finite 100) = Finite (7378697629483821 / 9223372036854775808)"
  "jsDiv (Finite (3602879701896397 / 36028797018963968)) (Finite 100) = Finite (1152921504606847 / 1152921504606846976)"
  "jsAdd (Finite 1) (Finite (7378697629483821 / 9223372036854775808)) = Finite (563400313384049 / 562949953421312)"
  "jsAdd (Finite (563400313384049 / 562949953421312)) (Finite (1152921504606847 / 1152921504606846976)) = Finite (2255853053349881 / 2251799813685248)"
  "jsMul (Finite 100) (Finite (2255853053349881 / 2251799813685248)) = Finite (3524770395859189 / 35184372088832)"
  "jsSub (Finite 1) (Finite (7378697629483821 / 9223372036854775808)) = Finite (8999993495337199 / 9007199254740992)"
  "jsSub (Finite (8999993495337199 / 9007199254740992)) (Finite (1152921504606847 / 1152921504606846976)) = Finite (4495493148041229 / 4503599627370496)"
  "jsMul (Finite (201 / 2)) (Finite (4495493148041229 / 4503599627370496)) = Finite (1764832271008373 / 17592186044416)"
  "jsSub (Finite (1764832271008373 / 17592186044416)) (Finite (3524770395859189 / 35184372088832)) = Finite (4894146157557 / 35184372088832)"
  "jsDiv (Finite (4894146157557 / 35184372088832)) (Finite (3524770395859189 / 35184372088832)) = Finite (1600832314741743 / 1152921504606846976)"
  "jsMul (Finite (1600832314741743 / 1152921504606846976)) (Finite 100) = Finite (5002600983567947 / 36028797018963968)"
  by code_simp+

lemma ops_tight:
  "jsSub (Finite (401 / 4)) (Finite 100) = Finite (1 / 4)"
  "jsDiv (Finite (1 / 4)) (Finite 100) = Finite (5764607523034235 / 2305843009213693952)"
  "jsMul (Finite (5764607523034235 / 2305843009213693952)) (Finite 100) = Finite (1 / 4)"
  by code_simp+

lemma ops_wide:
  "jsSub (Finite 102) (Finite 100) = Finite 2"
  "jsDiv (Finite 2) (Finite 100) = Finite (5764607523034235 / 288230376151711744)"
  "jsMul (Finite (5764607523034235 / 288230376151711744)) (Finite 100) = Finite 2"
  "jsMul (Finite 102) (Finite (4495493148041229 / 4503599627370496)) = Finite (7164692204690709 / 70368744177664)"
  "jsSub (Finite (7164692204690709 / 70368744177664)) (Finite (3524770395859189 / 35184372088832)) = Finite (115151412972331 / 70368744177664)"
  "jsDiv (Finite (115151412972331 / 70368744177664)) (Finite (3524770395859189 / 35184372088832)) = Finite (4708127246303333 / 288230376151711744)"
  "jsMul (Finite (4708127246303333 / 288230376151711744)) (Finite 100) = Finite (3678224411174479 / 2251799813685248)"
  by code_simp+

lemma ops_tiny:
  "jsDiv (Finite (1298074214633707 / 1298074214633706907132624082305024)) (Finite 100) = Finite (1661534994731145 / 166153499473114484112975882535043072)"
  "jsAdd (Finite 1) (Finite (1661534994731145 / 166153499473114484112975882535043072)) = Finite 1"
  "jsMul (Finite 100) (Finite 1) = Finite 100"
  "jsSub (Finite 1) (Finite (1661534994731145 / 166153499473114484112975882535043072)) = Finite 1"
  "jsMul (Finite (201 / 2)) (Finite 1) = Finite (201 / 2)"
  by code_simp+

lemma ops_eth:
  "jsMul (Finite 2000) (Finite (2255853053349881 / 2251799813685248)) = Finite (8811925989647973 / 4398046511104)"
  "jsMul (Finite 2005) (Finite (4495493148041229 / 4503599627370496)) = Finite (8802210704904945 / 4398046511104)"
  "jsSub (Finite (8802210704904945 / 4398046511104)) (Finite (8811925989647973 / 4398046511104)) = Finite (- (2428821185757 / 1099511627776))"
  "jsDiv (Finite (- (2428821185757 / 1099511627776))) (Finite (8811925989647973 / 4398046511104)) = Finite (- (5084455188014239 / 4611686018427387904))"
  "jsMul (Finite (- (5084455188014239 / 4611686018427387904))) (Finite 100) = Finite (- (993057653909031 / 9007199254740992))"
  "jsMul (Finite 2010) (Finite (4495493148041229 / 4503599627370496)) = Finite (4412080677520933 / 2199023255552)"
  "jsMul (Finite 2006) (Finite (2255853053349881 / 2251799813685248)) = Finite (8838361767616917 / 4398046511104)"
  "jsSub (Finite (4412080677520933 / 2199023255552)) (Finite (8838361767616917 / 4398046511104)) = Finite (- (14200412575051 / 4398046511104))"
  "jsDiv (Finite (- (14200412575051 / 4398046511104))) (Finite (4412080677520933 / 2199023255552)) = Finite (- (7421424143705773 / 4611686018427387904))"
  "jsMul (Finite (- (7421424143705773 / 4611686018427387904))) (Finite 100) = Finite (- (5797987612270135 / 36028797018963968))"
  "jsAdd (Finite (- (993057653909031 / 9007199254740992))) (Finite (- (5797987612270135 / 36028797018963968))) = Finite (- (2442554556976565 / 9007199254740992))"
  "jsDiv (Finite (- (2442554556976565 / 9007199254740992))) (Finite 2) = Finite (- (2442554556976565 / 18014398509481984))"
  by code_simp+

lemma ops_sol:
  "jsMul (Finite (203 / 2)) (Finite (4495493148041229 / 4503599627370496)) = Finite (7129571164471637 / 70368744177664)"
  "jsSub (Finite (7129571164471637 / 70368744177664)) (Finite (3524770395859189 / 35184372088832)) = Finite (80030372753259 / 70368744177664)"
  "jsDiv (Finite (80030372753259 / 70368744177664)) (Finite (3524770395859189 / 35184372088832)) = Finite (1636077095215357 / 144115188075855872)"
  "jsMul (Finite (1636077095215357 / 144115188075855872)) (Finite 100) = Finite (5112740922547991 / 4503599627370496)"
  "jsMul (Finite (203 / 2)) (Finite (2255853053349881 / 2251799813685248)) = Finite (3577641951797077 / 35184372088832)"
  "jsSub (Finite (7164692204690709 / 70368744177664)) (Finite (3577641951797077 / 35184372088832)) = Finite (9408301096555 / 70368744177664)"
  "jsDiv (Finite (9408301096555 / 70368744177664)) (Finite (7164692204690709 / 70368744177664)) = Finite (189244568122077 / 144115188075855872)"
  "jsMul (Finite (189244568122077 / 144115188075855872)) (Finite 100) = Finite (4731114203051925 / 36028797018963968)"
  "jsAdd (Finite (5112740922547991 / 4503599627370496)) (Finite (4731114203051925 / 36028797018963968)) = Finite (2852065098964741 / 2251799813685248)"
  "jsDiv (Finite (2852065098964741 / 2251799813685248)) (Finite 2) = Finite (2852065098964741 / 4503599627370496)"
  by code_simp+

lemmas example_arithmetic = ops_narrow ops_tight ops_wide ops_tiny ops_eth ops_sol

lemma jsLt_not_jsGe: "jsLt x y \<Longrightarrow> \<not> jsGe x y"
  by (simp add: jsGe_def)

lemma example_build:
  "buildOpportunity exampleConfig binanceBtc mexcBtcNarrow ''BTCUSDT'' 0 = Some narrowOpportunity"
  by (simp add: buildOpportunity_def exampleConfig_def binanceBtc_def mexcBtcNarrow_def
        narrowOpportunity_def binanceTick_def mexcTick_def Let_def jsLt_def
        example_literals example_arithmetic)

lemma example_build_wide:
  "buildOpportunity exampleConfig binanceBtc mexcBtcWide ''BTCUSDT'' 0 = Some exampleOpportunity"
  by (simp add: buildOpportunity_def exampleConfig_def binanceBtc_def mexcBtcWide_def
        exampleOpportunity_def binanceTick_def mexcTick_def Let_def jsLt_def
        example_literals example_arithmetic)


lemma example_tight_spread:
  "jsMul (jsDiv (jsSub (bid mexcBtcTight) (ask binanceBtc)) (ask binanceBtc)) (Finite 100)
     = Finite (1 / 4)"
  by (simp add: binanceBtc_def mexcBtcTight_def binanceTick_def mexcTick_def example_arithmetic)

lemma example_config_fields:
  "config exampleDetector = exampleConfig"
  "minSpreadPercent (arbitrage exampleConfig) = Finite (5404319552844595 / 18014398509481984)"
  "minSpreadToNotify (notifications exampleConfig)
     = Finite (5404319552844595 / 18014398509481984)"
  "minProfitToClosePercent (trading exampleConfig)
     = Finite (5404319552844595 / 18014398509481984)"
  "closeOnNewOpportunity (trading exampleConfig) = True"
  "enabled (trading exampleConfig) = True"
  by (simp_all add: exampleDetector_def exampleConfig_def example_literals)

lemma example_prices:
  "getCurrentPrices exampleDetector ''ETHUSDT'' = Some (Finite 2005, Finite 2006)"
  "getCurrentPrices exampleDetector ''SOLUSDT'' = Some (Finite (203 / 2), Finite (203 / 2))"
  "getCurrentPrices exampleDetector ''XRPUSDT'' = None"
  by (simp_all add: getCurrentPrices_def exampleDetector_def toMexcFormat_def
        binanceTick_def mexcTick_def jsLt_def)

lemma example_profits:
  "currentPairProfit exampleConfig ethPair (Finite 2005, Finite 2006) = ethProfit"
  "currentPairProfit exampleConfig solPair (Finite (203 / 2), Finite (203 / 2)) = solProfit"
  by (simp_all add: currentPairProfit_def exampleConfig_def ethPair_def solPair_def
        examplePair_def Let_def ethProfit_def solProfit_def example_literals
        example_arithmetic)

lemma example_pair_symbols:
  "pair_symbol ethPair = ''ETHUSDT''" "pair_symbol solPair = ''SOLUSDT''"
  "pair_symbol (examplePair s a b) = s"
  by (simp_all add: ethPair_def solPair_def examplePair_def)

lemma example_opportunity_fields:
  "opp_symbol exampleOpportunity = ''BTCUSDT''"
  "profitPercent exampleOpportunity = Finite (3678224411174479 / 2251799813685248)"
  by (simp_all add: exampleOpportunity_def)

lemma example_comparisons:
  "jsLt ethProfit (Finite (5404319552844595 / 18014398509481984))"
  "\<not> jsGe ethProfit (Finite (5404319552844595 / 18014398509481984))"
  "jsGe solProfit (Finite (5404319552844595 / 18014398509481984))"
  "jsGt (Finite (3678224411174479 / 2251799813685248)) solProfit"
  "jsLt solProfit (Finite (3678224411174479 / 2251799813685248))"
  by (simp_all add: ethProfit_def solProfit_def jsLt_def jsGe_def jsGt_def)


section \<open>Properties of the opportunity detector\<close>

lemma buildOpportunity_SomeD:
  assumes "buildOpportunity cfg price1 price2 symb now = Some opp"
  shows "jsLt (buyPrice opp) (sellPrice opp)"
    and "spreadPercent opp =
           jsMul (jsDiv (jsSub (sellPrice opp) (buyPrice opp)) (buyPrice opp)) (Finite 100)"
    and "\<not> jsLt (spreadPercent opp) (minSpreadPercent (arbitrage cfg))"
  using assms
  by (auto simp: buildOpportunity_def Let_def split: if_splits)

text \<open>
  Claim C10. A string without an underscore, such as every Binance-format symbol
  (BTCUSDT), is left as it is by \<open>toCommonFormat\<close>, and the MEXC symbol derived from it
  by \<open>toMexcFormat\<close> (the one the detector subscribes to) normalises to it. Hence
  onPriceUpdate joins the ticks of both venues on that one canonical key: for a Binance
  tick with such a symbol it looks up the MEXC cache under the MEXC form of the symbol,
  for the MEXC tick with that MEXC form it looks up the Binance cache under the symbol,
  and in both cases it compares the two prices under the Binance symbol.
\<close>

theorem toCommonFormat_identity_without_underscore:
  assumes "CHR ''_'' \<notin> set s"
  shows "toCommonFormat s = s \<and> toCommonFormat (toMexcFormat s) = s
       \<and> (symbol tick = s \<and> exchange tick = binance \<longrightarrow>
            onPriceUpdate d executor tick now =
              (case mexcPrices d (toMexcFormat s) of
                 None \<Rightarrow> (d, [])
               | Some other \<Rightarrow> checkArbitrage d executor tick other s now))
       \<and> (symbol tick = toMexcFormat s \<and> exchange tick = mexc \<longrightarrow>
            onPriceUpdate d executor tick now =
              (case binancePrices d s of
                 None \<Rightarrow> (d, [])
               | Some other \<Rightarrow> checkArbitrage d executor tick other s now))"
proof -
  have a: "toCommonFormat s = s"
    unfolding toCommonFormat_def
    using assms by (intro replaceFirst_absent) (simp add: includesStr_single)
  have b: "toCommonFormat (toMexcFormat s) = s"
    using assms by (rule toCommonFormat_after_toMexcFormat)
  show ?thesis
    by (simp add: a b onPriceUpdate_def Let_def)
qed

theorem toCommonFormat_identity_without_underscore_witness:
  "CHR ''_'' \<notin> set ''BTCUSDT'' \<and> toCommonFormat ''BTCUSDT'' = ''BTCUSDT''
   \<and> toCommonFormat (toMexcFormat ''BTCUSDT'') = ''BTCUSDT''
   \<and> symbol binanceBtc = ''BTCUSDT'' \<and> exchange binanceBtc = binance
   \<and> onPriceUpdate exampleDetector freeExecutor binanceBtc 0 =
       checkArbitrage exampleDetector freeExecutor binanceBtc mexcBtcWide ''BTCUSDT'' 0
   \<and> symbol mexcBtcWide = toMexcFormat ''BTCUSDT'' \<and> exchange mexcBtcWide = mexc
   \<and> onPriceUpdate exampleDetector freeExecutor mexcBtcWide 0 =
       checkArbitrage exampleDetector freeExecutor mexcBtcWide binanceBtc ''BTCUSDT'' 0"
proof -
  have t: "toMexcFormat ''BTCUSDT'' = ''BTC_USDT''"
    by (simp add: toMexcFormat_def)
  have f: "symbol binanceBtc = ''BTCUSDT''" "exchange binanceBtc = binance"
    "symbol mexcBtcWide = ''BTC_USDT''" "exchange mexcBtcWide = mexc"
    by (simp_all add: binanceBtc_def mexcBtcWide_def binanceTick_def mexcTick_def)
  have p: "mexcPrices exampleDetector ''BTC_USDT'' = Some mexcBtcWide"
    "binancePrices exampleDetector ''BTCUSDT'' = Some binanceBtc"
    by (simp_all add: exampleDetector_def)
  show ?thesis
    using toCommonFormat_identity_without_underscore
            [of "''BTCUSDT''" binanceBtc exampleDetector freeExecutor 0]
          toCommonFormat_identity_without_underscore
            [of "''BTCUSDT''" mexcBtcWide exampleDetector freeExecutor 0]
    by (simp add: t f p)
qed

text \<open>
  Claim C1, as stated, fails. With every configured threshold at 0.3 percent, a Binance
  ask of 100 against a MEXC bid of 100.5 is a gross spread of 0.5 percent and a net
  profit of 0.13885006987423973 percent, below the thresholds; checkArbitrage counts the
  opportunity and passes it on, and with a free slot the pairing is opened.
\<close>

theorem checkArbitrage_emits_below_minimum_profit:
  "checkArbitrage exampleDetector freeExecutor binanceBtc mexcBtcNarrow ''BTCUSDT'' 0 =
     (exampleDetector\<lparr>opportunitiesFound := 1, totalComparisons := 1\<rparr>,
      [OpenPositionPair narrowOpportunity,
       UpdatePositionSpread ''BTCUSDT'' (Finite 100) (Finite (201 / 2))])
   \<and> profitPercent narrowOpportunity = Finite (5002600983567947 / 36028797018963968)
   \<and> jsLt (profitPercent narrowOpportunity)
        (minSpreadPercent (arbitrage (config exampleDetector)))
   \<and> jsLt (profitPercent narrowOpportunity)
        (minSpreadToNotify (notifications (config exampleDetector)))
   \<and> jsLt (profitPercent narrowOpportunity)
        (minProfitToClosePercent (trading (config exampleDetector)))"
proof -
  have "checkArbitrage exampleDetector freeExecutor binanceBtc mexcBtcNarrow ''BTCUSDT'' 0 =
     (exampleDetector\<lparr>opportunitiesFound := 1, totalComparisons := 1\<rparr>,
      [OpenPositionPair narrowOpportunity,
       UpdatePositionSpread ''BTCUSDT'' (Finite 100) (Finite (201 / 2))])"
    unfolding checkArbitrage_def example_config_fields(1) example_build
    by (simp add: Let_def handleNewOpportunity_def freeExecutor_def exampleDetector_def
          exampleConfig_def narrowOpportunity_def)
  then show ?thesis
    by (simp add: example_config_fields) (simp add: narrowOpportunity_def jsLt_def)
qed

text \<open>
  Claim C1, amended. For every tick comparison performed by checkArbitrage, if the gross
  spread percent of the candidate is below the configured minimum spread
  (\<^verbatim>\<open>arbitrage.minSpreadPercent\<close>), processing stops: no opportunity is built, the
  comparison is counted and no call is made. An opportunity is built only with a gross
  spread percent that is not below that minimum: at or above it, whenever both are
  numbers.
\<close>

theorem checkArbitrage_filters_on_gross_spread:
  "(jsLt (ask price1) (bid price2)
      \<and> jsLt (jsMul (jsDiv (jsSub (bid price2) (ask price1)) (ask price1)) (Finite 100))
           (minSpreadPercent (arbitrage (config d)))
    \<or> \<not> jsLt (ask price1) (bid price2) \<and> jsLt (ask price2) (bid price1)
      \<and> jsLt (jsMul (jsDiv (jsSub (bid price1) (ask price2)) (ask price2)) (Finite 100))
           (minSpreadPercent (arbitrage (config d)))
    \<longrightarrow> buildOpportunity (config d) price1 price2 symb now = None
       \<and> checkArbitrage d executor price1 price2 symb now =
           (d\<lparr>totalComparisons := totalComparisons d + 1\<rparr>, []))
   \<and> (\<forall>opp. buildOpportunity (config d) price1 price2 symb now = Some opp
         \<longrightarrow> \<not> jsLt (spreadPercent opp) (minSpreadPercent (arbitrage (config d)))
           \<and> (spreadPercent opp \<noteq> NaN \<and> minSpreadPercent (arbitrage (config d)) \<noteq> NaN
                \<longrightarrow> jsGe (spreadPercent opp) (minSpreadPercent (arbitrage (config d))))
           \<and> spreadPercent opp =
               jsMul (jsDiv (jsSub (sellPrice opp) (buyPrice opp)) (buyPrice opp))
                 (Finite 100))"
proof (intro conjI impI allI)
  assume a: "jsLt (ask price1) (bid price2)
      \<and> jsLt (jsMul (jsDiv (jsSub (bid price2) (ask price1)) (ask price1)) (Finite 100))
           (minSpreadPercent (arbitrage (config d)))
    \<or> \<not> jsLt (ask price1) (bid price2) \<and> jsLt (ask price2) (bid price1)
      \<and> jsLt (jsMul (jsDiv (jsSub (bid price1) (ask price2)) (ask price2)) (Finite 100))
           (minSpreadPercent (arbitrage (config d)))"
  then show n: "buildOpportunity (config d) price1 price2 symb now = None"
    by (auto simp: buildOpportunity_def Let_def)
  show "checkArbitrage d executor price1 price2 symb now =
           (d\<lparr>totalComparisons := totalComparisons d + 1\<rparr>, [])"
    by (simp add: checkArbitrage_def n Let_def)
next
  fix opp
  assume s: "buildOpportunity (config d) price1 price2 symb now = Some opp"
  show nl: "\<not> jsLt (spreadPercent opp) (minSpreadPercent (arbitrage (config d)))"
    by (rule buildOpportunity_SomeD(3) [OF s])
  show "jsGe (spreadPercent opp) (minSpreadPercent (arbitrage (config d)))"
    if "spreadPercent opp \<noteq> NaN \<and> minSpreadPercent (arbitrage (config d)) \<noteq> NaN"
    using nl that by (simp add: jsGe_def)
  show "spreadPercent opp =
          jsMul (jsDiv (jsSub (sellPrice opp) (buyPrice opp)) (buyPrice opp)) (Finite 100)"
    by (rule buildOpportunity_SomeD(2) [OF s])
qed

theorem checkArbitrage_filters_on_gross_spread_witness:
  "jsLt (ask binanceBtc) (bid mexcBtcTight)
   \<and> jsLt (jsMul (jsDiv (jsSub (bid mexcBtcTight) (ask binanceBtc)) (ask binanceBtc))
            (Finite 100))
        (minSpreadPercent (arbitrage (config exampleDetector)))
   \<and> checkArbitrage exampleDetector freeExecutor binanceBtc mexcBtcTight ''BTCUSDT'' 0 =
       (exampleDetector\<lparr>totalComparisons := totalComparisons exampleDetector + 1\<rparr>, [])
   \<and> buildOpportunity (config exampleDetector) binanceBtc mexcBtcNarrow ''BTCUSDT'' 0 =
       Some narrowOpportunity
   \<and> jsGe (spreadPercent narrowOpportunity)
        (minSpreadPercent (arbitrage (config exampleDetector)))"
proof -
  have c: "config exampleDetector = exampleConfig" by (simp add: exampleDetector_def)
  have t: "jsLt (ask binanceBtc) (bid mexcBtcTight)
   \<and> jsLt (jsMul (jsDiv (jsSub (bid mexcBtcTight) (ask binanceBtc)) (ask binanceBtc))
            (Finite 100))
        (minSpreadPercent (arbitrage (config exampleDetector)))"
    unfolding example_tight_spread
    by (simp add: example_config_fields binanceBtc_def mexcBtcTight_def binanceTick_def
          mexcTick_def jsLt_def)
  have n: "spreadPercent narrowOpportunity \<noteq> NaN
      \<and> minSpreadPercent (arbitrage (config exampleDetector)) \<noteq> NaN"
    by (simp add: narrowOpportunity_def example_config_fields)
  show ?thesis
    using t n example_build
      checkArbitrage_filters_on_gross_spread
          [of binanceBtc mexcBtcTight exampleDetector "''BTCUSDT''" 0 freeExecutor]
      checkArbitrage_filters_on_gross_spread
          [of binanceBtc mexcBtcNarrow exampleDetector "''BTCUSDT''" 0 freeExecutor]
    unfolding c by blast
qed

text \<open>
  Claim C9. For every incoming tick, if the price cache of the other venue has no entry
  for the instrument (under the MEXC form of the canonical symbol for a Binance tick,
  under the canonical symbol for a MEXC tick), onPriceUpdate returns with the detector
  unchanged and without any call: no opportunity, no skip record, no error.
\<close>

theorem onPriceUpdate_without_counterpart:
  assumes "exchange tick = binance \<longrightarrow>
             mexcPrices d (toMexcFormat (toCommonFormat (symbol tick))) = None"
    and "exchange tick \<noteq> binance \<longrightarrow>
             binancePrices d (toCommonFormat (symbol tick)) = None"
  shows "onPriceUpdate d executor tick now = (d, [])"
  using assms by (simp add: onPriceUpdate_def Let_def)

theorem onPriceUpdate_without_counterpart_witness:
  "exchange binanceBtc = binance
   \<and> mexcPrices oneSidedDetector
        (toMexcFormat (toCommonFormat (symbol binanceBtc))) = None
   \<and> onPriceUpdate oneSidedDetector freeExecutor binanceBtc 0
       = (oneSidedDetector, [])"
  using onPriceUpdate_without_counterpart
          [of binanceBtc oneSidedDetector freeExecutor 0]
  by (simp add: oneSidedDetector_def binanceBtc_def binanceTick_def)


section \<open>Properties of the slot decision\<close>

lemma no_duplicate_symbol:
  assumes "\<forall>(pairId, pair) \<in> set ps. pair_symbol pair \<noteq> opp_symbol opportunity"
  shows "\<not> list_ex (\<lambda>(pairId, pair). pair_symbol pair = opp_symbol opportunity) ps"
  using assms unfolding list_ex_iff by auto

lemma evaluateOpenPositions_passes:
  assumes "\<forall>(i, p) \<in> set before.
             (case getCurrentPrices d (pair_symbol p) of
                None \<Rightarrow> True
              | Some cur \<Rightarrow>
                  jsGe (currentPairProfit (config d) p cur)
                    (minSpreadToNotify (notifications (config d)))
                  \<and> \<not> jsGt (profitPercent opportunity) (currentPairProfit (config d) p cur))"
  shows "evaluateOpenPositions d opportunity (before @ rest) =
         evaluateOpenPositions d opportunity rest"
  using assms
proof (induction before)
  case Nil
  show ?case by simp
next
  case (Cons x xs)
  obtain i p where x: "x = (i, p)" by (cases x)
  from Cons.prems have rest: "\<forall>(i, p) \<in> set xs.
             (case getCurrentPrices d (pair_symbol p) of
                None \<Rightarrow> True
              | Some cur \<Rightarrow>
                  jsGe (currentPairProfit (config d) p cur)
                    (minSpreadToNotify (notifications (config d)))
                  \<and> \<not> jsGt (profitPercent opportunity) (currentPairProfit (config d) p cur))"
    by simp
  from Cons.prems x have hd: "case getCurrentPrices d (pair_symbol p) of
                None \<Rightarrow> True
              | Some cur \<Rightarrow>
                  jsGe (currentPairProfit (config d) p cur)
                    (minSpreadToNotify (notifications (config d)))
                  \<and> \<not> jsGt (profitPercent opportunity) (currentPairProfit (config d) p cur)"
    by simp
  show ?case
    using hd Cons.IH [OF rest] by (auto simp: x Let_def split: option.splits)
qed

text \<open>
  Claim C8. If the instrument of an opportunity already has an open pairing,
  handleNewOpportunity makes no call at all: nothing is opened or closed and no skip
  record is written.
\<close>

theorem handleNewOpportunity_discards_duplicate_symbol:
  assumes "(pairId, pair) \<in> set (openPositions executor)"
    and "pair_symbol pair = opp_symbol opportunity"
  shows "handleNewOpportunity d executor opportunity = []"
proof -
  have "list_ex (\<lambda>(pairId, pair). pair_symbol pair = opp_symbol opportunity)
          (openPositions executor)"
    unfolding list_ex_iff using assms by auto
  then show ?thesis by (simp add: handleNewOpportunity_def)
qed

theorem handleNewOpportunity_discards_duplicate_symbol_witness:
  "(''pair-1'', examplePair ''BTCUSDT'' 100 101) \<in>
      set (openPositions \<lparr>openPositions = [(''pair-1'', examplePair ''BTCUSDT'' 100 101)],
                           canOpenNewPosition = True\<rparr>)
   \<and> pair_symbol (examplePair ''BTCUSDT'' 100 101) = opp_symbol exampleOpportunity
   \<and> handleNewOpportunity exampleDetector
        \<lparr>openPositions = [(''pair-1'', examplePair ''BTCUSDT'' 100 101)],
          canOpenNewPosition = True\<rparr> exampleOpportunity = []"
  using handleNewOpportunity_discards_duplicate_symbol
          [of "''pair-1''" "examplePair ''BTCUSDT'' 100 101"
              "\<lparr>openPositions = [(''pair-1'', examplePair ''BTCUSDT'' 100 101)],
                 canOpenNewPosition = True\<rparr>" exampleOpportunity exampleDetector]
  by (simp add: examplePair_def exampleOpportunity_def)

text \<open>
  Claim C2, as stated, fails. Slots are full, the one open pairing (ETHUSDT, entered at
  2000 and 2010, now at 2005 and 2006) has a current profit of -0.13558901540292406
  percent, below the notify threshold of 0.3, and the new opportunity qualifies (gross
  spread 2 percent, net profit 1.6334597724096862 percent). With closeOnNewOpportunity
  enabled the skip is recorded with reason POSITION_NOT_PROFITABLE, not NO_FREE_SLOTS.
\<close>

theorem full_slots_skip_records_position_not_profitable:
  "handleNewOpportunity exampleDetector ethOnlyExecutor exampleOpportunity =
     [RecordSkippedOpportunity exampleOpportunity POSITION_NOT_PROFITABLE None None
        (Some (Finite (- (2442554556976565 / 18014398509481984))))]
   \<and> \<not> canOpenNewPosition ethOnlyExecutor
   \<and> openPositions ethOnlyExecutor = [(''pair-1'', ethPair)]
   \<and> getCurrentPrices exampleDetector (pair_symbol ethPair) = Some (Finite 2005, Finite 2006)
   \<and> currentPairProfit (config exampleDetector) ethPair (Finite 2005, Finite 2006)
        = Finite (- (2442554556976565 / 18014398509481984))
   \<and> jsLt (currentPairProfit (config exampleDetector) ethPair (Finite 2005, Finite 2006))
        (minSpreadToNotify (notifications (config exampleDetector)))
   \<and> buildOpportunity (config exampleDetector) binanceBtc mexcBtcWide ''BTCUSDT'' 0
        = Some exampleOpportunity"
  by (simp add: handleNewOpportunity_def ethOnlyExecutor_def example_pair_symbols
        example_config_fields example_opportunity_fields example_prices example_profits
        example_comparisons example_build_wide)
    (simp add: ethProfit_def)

text \<open>
  Claim C2, amended. When no slot is free, the instrument of the new opportunity has no
  open pairing, and every open pairing has current prices and a current profit below
  the notify threshold, the opportunity is skipped with exactly one skip record and
  nothing is closed or opened. The reason is POSITION_NOT_PROFITABLE, with the current
  profit of the first open pairing, when closeOnNewOpportunity is enabled and a pairing
  is open; it is NO_FREE_SLOTS otherwise.
\<close>

theorem full_slots_unprofitable_pairings_skip:
  assumes "\<not> canOpenNewPosition executor"
    and "\<forall>(pairId, pair) \<in> set (openPositions executor).
           pair_symbol pair \<noteq> opp_symbol opportunity"
    and "\<forall>(pairId, pair) \<in> set (openPositions executor).
           \<exists>cur. getCurrentPrices d (pair_symbol pair) = Some cur
             \<and> jsLt (currentPairProfit (config d) pair cur)
                  (minSpreadToNotify (notifications (config d)))"
  shows "(closeOnNewOpportunity (trading (config d)) \<and> openPositions executor \<noteq> [] \<longrightarrow>
           (\<exists>pairId pair rest cur.
              openPositions executor = (pairId, pair) # rest
              \<and> getCurrentPrices d (pair_symbol pair) = Some cur
              \<and> handleNewOpportunity d executor opportunity =
                  [RecordSkippedOpportunity opportunity POSITION_NOT_PROFITABLE None None
                     (Some (currentPairProfit (config d) pair cur))]))
       \<and> (\<not> (closeOnNewOpportunity (trading (config d)) \<and> openPositions executor \<noteq> []) \<longrightarrow>
           handleNewOpportunity d executor opportunity =
             [RecordSkippedOpportunity opportunity NO_FREE_SLOTS None None None])"
proof (intro conjI impI)
  note nd = no_duplicate_symbol [OF assms(2)]
  {
    assume a: "closeOnNewOpportunity (trading (config d)) \<and> openPositions executor \<noteq> []"
    then obtain pairId pair rest where ops: "openPositions executor = (pairId, pair) # rest"
      by (cases "openPositions executor") auto
    from assms(3) ops obtain cur where
      cur: "getCurrentPrices d (pair_symbol pair) = Some cur"
      and low: "jsLt (currentPairProfit (config d) pair cur)
                  (minSpreadToNotify (notifications (config d)))"
      by auto
    have "evaluateOpenPositions d opportunity (openPositions executor) =
            Some [RecordSkippedOpportunity opportunity POSITION_NOT_PROFITABLE None None
                    (Some (currentPairProfit (config d) pair cur))]"
      using cur jsLt_not_jsGe [OF low] by (simp add: ops Let_def)
    then have "handleNewOpportunity d executor opportunity =
                  [RecordSkippedOpportunity opportunity POSITION_NOT_PROFITABLE None None
                     (Some (currentPairProfit (config d) pair cur))]"
      using nd assms(1) a by (simp add: handleNewOpportunity_def)
    with ops cur show "\<exists>pairId pair rest cur.
              openPositions executor = (pairId, pair) # rest
              \<and> getCurrentPrices d (pair_symbol pair) = Some cur
              \<and> handleNewOpportunity d executor opportunity =
                  [RecordSkippedOpportunity opportunity POSITION_NOT_PROFITABLE None None
                     (Some (currentPairProfit (config d) pair cur))]"
      by blast
  }
  {
    assume "\<not> (closeOnNewOpportunity (trading (config d)) \<and> openPositions executor \<noteq> [])"
    then show "handleNewOpportunity d executor opportunity =
             [RecordSkippedOpportunity opportunity NO_FREE_SLOTS None None None]"
      using nd assms(1) by (auto simp: handleNewOpportunity_def)
  }
qed

theorem full_slots_unprofitable_pairings_skip_witness:
  "\<not> canOpenNewPosition ethOnlyExecutor
   \<and> openPositions ethOnlyExecutor = [(''pair-1'', ethPair)]
   \<and> pair_symbol ethPair \<noteq> opp_symbol exampleOpportunity
   \<and> getCurrentPrices exampleDetector (pair_symbol ethPair) = Some (Finite 2005, Finite 2006)
   \<and> jsLt (currentPairProfit (config exampleDetector) ethPair (Finite 2005, Finite 2006))
        (minSpreadToNotify (notifications (config exampleDetector)))
   \<and> closeOnNewOpportunity (trading (config exampleDetector))
   \<and> handleNewOpportunity exampleDetector ethOnlyExecutor exampleOpportunity =
        [RecordSkippedOpportunity exampleOpportunity POSITION_NOT_PROFITABLE None None
           (Some (currentPairProfit (config exampleDetector) ethPair
                    (Finite 2005, Finite 2006)))]"
  using full_slots_unprofitable_pairings_skip
          [of ethOnlyExecutor exampleOpportunity exampleDetector]
  by (simp add: ethOnlyExecutor_def example_pair_symbols example_config_fields
        example_opportunity_fields example_prices example_profits example_comparisons)

text \<open>
  Claim C6, as stated, fails. Slots are full and closeOnNewOpportunity is enabled; the
  second open pairing (SOLUSDT) has a current profit of 0.6332856681200962 percent,
  above the notify threshold of 0.3, and the new opportunity's profit of
  1.6334597724096862 percent exceeds it. The first open pairing (ETHUSDT) is below the
  threshold, so the loop returns there with a POSITION_NOT_PROFITABLE skip: nothing is
  closed or opened.
\<close>

theorem replacement_blocked_by_earlier_pairing:
  "handleNewOpportunity exampleDetector ethSolExecutor exampleOpportunity =
     [RecordSkippedOpportunity exampleOpportunity POSITION_NOT_PROFITABLE None None
        (Some (Finite (- (2442554556976565 / 18014398509481984))))]
   \<and> \<not> canOpenNewPosition ethSolExecutor
   \<and> openPositions ethSolExecutor = [(''pair-1'', ethPair), (''pair-2'', solPair)]
   \<and> closeOnNewOpportunity (trading (config exampleDetector))
   \<and> getCurrentPrices exampleDetector (pair_symbol solPair)
        = Some (Finite (203 / 2), Finite (203 / 2))
   \<and> currentPairProfit (config exampleDetector) solPair (Finite (203 / 2), Finite (203 / 2))
        = Finite (2852065098964741 / 4503599627370496)
   \<and> jsGe (currentPairProfit (config exampleDetector) solPair
             (Finite (203 / 2), Finite (203 / 2)))
        (minSpreadToNotify (notifications (config exampleDetector)))
   \<and> jsGt (profitPercent exampleOpportunity)
        (currentPairProfit (config exampleDetector) solPair
           (Finite (203 / 2), Finite (203 / 2)))"
  by (simp add: handleNewOpportunity_def ethSolExecutor_def example_pair_symbols
        example_config_fields example_opportunity_fields example_prices example_profits
        example_comparisons)
    (simp add: ethProfit_def solProfit_def)

text \<open>
  Claim C6, amended. When no slot is free, closeOnNewOpportunity is enabled, the
  instrument of the new opportunity has no open pairing, and an open pairing has
  current prices, a current profit at or above the notify threshold and below the new
  opportunity's profit, while every pairing before it in the ledger's order either has
  no current prices or has a current profit at or above the threshold that the new
  opportunity does not exceed: the calls are exactly one closePositionManually, for that
  pairing at its current prices, followed by one openPositionPair for the opportunity.
  The pairings after it are not looked at.
\<close>

theorem first_fit_replacement:
  assumes "\<not> canOpenNewPosition executor"
    and "closeOnNewOpportunity (trading (config d))"
    and "\<forall>(i, p) \<in> set (openPositions executor). pair_symbol p \<noteq> opp_symbol opportunity"
    and "openPositions executor = before @ (pairId, pair) # after"
    and "\<forall>(i, p) \<in> set before.
             (case getCurrentPrices d (pair_symbol p) of
                None \<Rightarrow> True
              | Some cur \<Rightarrow>
                  jsGe (currentPairProfit (config d) p cur)
                    (minSpreadToNotify (notifications (config d)))
                  \<and> \<not> jsGt (profitPercent opportunity) (currentPairProfit (config d) p cur))"
    and "getCurrentPrices d (pair_symbol pair) = Some (curBuy, curSell)"
    and "jsGe (currentPairProfit (config d) pair (curBuy, curSell))
           (minSpreadToNotify (notifications (config d)))"
    and "jsGt (profitPercent opportunity) (currentPairProfit (config d) pair (curBuy, curSell))"
  shows "handleNewOpportunity d executor opportunity =
           [ClosePositionManually pairId curBuy curSell, OpenPositionPair opportunity]"
proof -
  have "evaluateOpenPositions d opportunity (openPositions executor) =
          evaluateOpenPositions d opportunity ((pairId, pair) # after)"
    unfolding assms(4) by (rule evaluateOpenPositions_passes [OF assms(5)])
  also have "\<dots> = Some [ClosePositionManually pairId curBuy curSell, OpenPositionPair opportunity]"
    using assms(6,7,8) by (simp add: Let_def)
  finally show ?thesis
    using no_duplicate_symbol [OF assms(3)] assms(1,2)
    by (simp add: handleNewOpportunity_def)
qed

theorem first_fit_replacement_witness:
  "\<not> canOpenNewPosition xrpSolExecutor
   \<and> closeOnNewOpportunity (trading (config exampleDetector))
   \<and> openPositions xrpSolExecutor =
       [(''pair-0'', examplePair ''XRPUSDT'' 1 1)] @ (''pair-2'', solPair) # []
   \<and> getCurrentPrices exampleDetector ''XRPUSDT'' = None
   \<and> getCurrentPrices exampleDetector (pair_symbol solPair)
        = Some (Finite (203 / 2), Finite (203 / 2))
   \<and> jsGe (currentPairProfit (config exampleDetector) solPair
             (Finite (203 / 2), Finite (203 / 2)))
        (minSpreadToNotify (notifications (config exampleDetector)))
   \<and> jsGt (profitPercent exampleOpportunity)
        (currentPairProfit (config exampleDetector) solPair
           (Finite (203 / 2), Finite (203 / 2)))
   \<and> handleNewOpportunity exampleDetector xrpSolExecutor exampleOpportunity =
        [ClosePositionManually ''pair-2'' (Finite (203 / 2)) (Finite (203 / 2)),
         OpenPositionPair exampleOpportunity]"
  using first_fit_replacement
          [of xrpSolExecutor exampleDetector exampleOpportunity
              "[(''pair-0'', examplePair ''XRPUSDT'' 1 1)]" "''pair-2''" solPair "[]"
              "Finite (203 / 2)" "Finite (203 / 2)"]
  by (simp add: xrpSolExecutor_def example_pair_symbols example_config_fields
        example_opportunity_fields example_prices example_profits example_comparisons)

section \<open>Rounding is monotone\<close>













lemma jsGe_simps [simp]:
  "jsGe (Finite a) (Finite b) = (b \<le> a)"
  "jsGe PosInfinity (Finite b) = True"
  "jsGe PosInfinity PosInfinity = True"
  "jsGe (Finite b) PosInfinity = False"
  "jsGe (Finite a) NegInfinity = True"
  "jsGe NegInfinity (Finite a) = False"
  "jsGe NegInfinity NegInfinity = True"
  "jsGe PosInfinity NegInfinity = True"
  "jsGe NegInfinity PosInfinity = False"
  "jsGe NegZero (Finite b) = (b \<le> 0)"
  "jsGe (Finite a) NegZero = (0 \<le> a)"
  "jsGe NegZero NegZero = True"
  "jsGe PosInfinity NegZero = True"
  "jsGe NegZero PosInfinity = False"
  "jsGe NegZero NegInfinity = True"
  "jsGe NegInfinity NegZero = False"
  "jsGe NaN x = False"
  "jsGe x NaN = False"
  by (auto simp: jsGe_def jsLt_def)

lemma pow2_pos [simp]: "(0::rat) < 2 powi e"
  by (simp add: power_int_def)








































section \<open>The cost model of the opportunity detector\<close>







end
